theory Spec2Isabelle
  imports Complex_Main
begin

section \<open>Python values shared by both modules\<close>

text \<open>
  Exceptions are values. The constructor is the Python exception class, the string is the
  message; where the source fills a message with \<open>format\<close>, the template is kept as it is
  written and the filled-in text is not modelled; the messages of numpy's and of the
  interpreter's own exceptions are shortened. \<open>OtherException\<close> stands for whatever a
  collaborator outside these two modules raises.
\<close>

datatype error =
    RuntimeError string
  | AssertionError string
  | ValueError string
  | TypeError string
  | IndexError string
  | MemoryError string
  | OtherException string

text \<open>The values an extra configuration can hold; the pipeline never looks inside them.\<close>

datatype pyval = PyInt int | PyStr string | PyBool bool

type_synonym extra_config = "string \<rightharpoonup> pyval"

section \<open>numpy arrays\<close>

text \<open>
  An array is its shape and its elements in row-major order. The elements of the linear
  converter are the 32-bit floats of the ONNX attribute, so that \<open>astype("float32")\<close> does
  not change them; no arithmetic is done on them, they are only moved.
\<close>

record ndarray =
  nd_shape :: "nat list"
  nd_data :: "real list"

text \<open>\<open>np.array(xs)\<close> for a flat list.\<close>

definition np_array :: "real list \<Rightarrow> ndarray" where
  "np_array xs = \<lparr>nd_shape = [length xs], nd_data = xs\<rparr>"

text \<open>
  \<open>np.array(rows)\<close> for a list of equally long rows. The empty list has no rows to take a
  second dimension from: numpy returns the empty one-dimensional array, of shape \<open>(0,)\<close>.
\<close>

definition np_array_rows :: "real list list \<Rightarrow> ndarray" where
  "np_array_rows rows =
     (case rows of
        [] \<Rightarrow> \<lparr>nd_shape = [0], nd_data = []\<rparr>
      | r # _ \<Rightarrow> \<lparr>nd_shape = [length rows, length r], nd_data = concat rows\<rparr>)"

text \<open>\<open>a.reshape(r, c)\<close>: the size must be kept, or numpy raises ValueError.\<close>

definition reshape :: "real list \<Rightarrow> nat \<Rightarrow> nat \<Rightarrow> error + ndarray" where
  "reshape xs r c =
     (if r * c = length xs then Inr \<lparr>nd_shape = [r, c], nd_data = xs\<rparr>
      else Inl (ValueError ''cannot reshape array of size {} into shape {}''))"

text \<open>Iterating over a two-dimensional array yields its rows.\<close>

definition rows_of :: "ndarray \<Rightarrow> real list list" where
  "rows_of a =
     (case nd_shape a of
        [r, c] \<Rightarrow> map (\<lambda>k. take c (drop (k * c) (nd_data a))) [0..<r]
      | _ \<Rightarrow> [])"

text \<open>
  \<open>zip(*rows)\<close>: the i-th tuple collects the i-th element of every row; there are as many
  tuples as the shortest row is long, and none when there is no row.
\<close>

definition zip_star :: "'a list list \<Rightarrow> 'a list list" where
  "zip_star rows =
     (case rows of
        [] \<Rightarrow> []
      | r # rs \<Rightarrow> map (\<lambda>i. map (\<lambda>row. row ! i) rows)
                     [0..<fold (\<lambda>row m. min (length row) m) rs (length r)])"

text \<open>Reading a two-dimensional array: entry \<open>(i, j)\<close> and column \<open>j\<close>.\<close>

definition entry :: "ndarray \<Rightarrow> nat \<Rightarrow> nat \<Rightarrow> real" where
  "entry a i j = nd_data a ! (i * (nd_shape a ! 1) + j)"

definition column :: "ndarray \<Rightarrow> nat \<Rightarrow> real list" where
  "column a j = map (\<lambda>i. entry a i j) [0..<nd_shape a ! 0]"

section \<open>The linear-model converter (operator_converters/onnxml_linear.py)\<close>

text \<open>
  An ONNX attribute carries a name and one field per kind of value; the converter reads
  \<open>floats\<close>, \<open>ints\<close> and \<open>i\<close>. String class labels live in \<open>strings\<close>.
\<close>

record attribute_proto =
  attr_name :: string
  attr_floats :: "real list"
  attr_ints :: "int list"
  attr_i :: int
  attr_strings :: "string list"

text \<open>\<open>operator.raw_operator\<close> is a linked node: its \<open>op_type\<close> and the attributes of its \<open>origin\<close>.\<close>

record linked_node =
  op_type :: string
  origin_attribute :: "attribute_proto list"

record operator_container =
  raw_operator :: linked_node

text \<open>The four local variables the attribute loop assigns; all start as \<open>None\<close>.\<close>

record attr_vars =
  v_coefficients :: "real list option"
  v_intercepts :: "real list option"
  v_classes :: "int list option"
  v_multi_class :: "string option"

definition no_vars :: attr_vars where
  "no_vars = \<lparr>v_coefficients = None, v_intercepts = None, v_classes = None, v_multi_class = None\<rparr>"

text \<open>One iteration of \<open>for attr in operator.origin.attribute\<close>.\<close>

definition read_attribute :: "attribute_proto \<Rightarrow> attr_vars \<Rightarrow> attr_vars" where
  "read_attribute attr vars =
     (if attr_name attr = ''coefficients'' then vars\<lparr>v_coefficients := Some (attr_floats attr)\<rparr>
      else if attr_name attr = ''intercepts'' then vars\<lparr>v_intercepts := Some (attr_floats attr)\<rparr>
      else if attr_name attr = ''classlabels_ints'' then vars\<lparr>v_classes := Some (attr_ints attr)\<rparr>
      else if attr_name attr = ''multi_class'' then
        (if attr_i attr \<noteq> 0 then vars\<lparr>v_multi_class := Some ''multinomial''\<rparr> else vars)
      else vars)"

definition read_attributes :: "attribute_proto list \<Rightarrow> attr_vars" where
  "read_attributes attrs = fold read_attribute attrs no_vars"

text \<open>
  \<open>LinearModel\<close> is defined in \<open>_linear_implementations\<close>, which is not among the sources at
  hand: the fragment is the tuple of arguments its constructor receives.
\<close>

record linear_model =
  coefficients :: ndarray
  intercepts :: ndarray
  device :: "string option"
  classes :: "int list"
  multi_class :: string
  is_linear_regression :: bool

text \<open>
  Lines 55 to 75: the reshape by class count and the construction of the fragment, once
  the three arrays are known to be present and the mode and the regression flag are set.
\<close>

definition reshape_and_build ::
    "real list \<Rightarrow> real list \<Rightarrow> int list \<Rightarrow> string \<Rightarrow> bool \<Rightarrow> string option
       \<Rightarrow> error + linear_model" where
  "reshape_and_build coefs icpts cls mc regr dev =
     (if length cls = 2 then
        Inr \<lparr>coefficients = np_array_rows (map (\<lambda>val. [val]) (drop (length coefs div 2) coefs)),
             intercepts = np_array_rows (map (\<lambda>val. [val]) (drop (length icpts div 2) icpts)),
             device = dev, classes = cls, multi_class = mc, is_linear_regression = regr\<rparr>
      else if length cls > 2 then
        (case reshape coefs (length cls) (length coefs div length cls) of
           Inl e \<Rightarrow> Inl e
         | Inr tmp \<Rightarrow>
             Inr \<lparr>coefficients = np_array_rows (zip_star (rows_of tmp)),
                  intercepts = np_array icpts,
                  device = dev, classes = cls, multi_class = mc, is_linear_regression = regr\<rparr>)
      else
        Inl (RuntimeError ''Error parsing LinearClassifier, length of classes {} unexpected:{}''))"

text \<open>
  Lines 47 to 53: the check that nothing is \<open>None\<close>, the default of the multi-class mode
  and the regression flag. The \<open>print\<close> before the raise writes to standard output only.
\<close>

definition check_and_build :: "linked_node \<Rightarrow> attr_vars \<Rightarrow> string option \<Rightarrow> error + linear_model" where
  "check_and_build node vars dev =
     (case (v_coefficients vars, v_intercepts vars, v_classes vars) of
        (Some coefs, Some icpts, Some cls) \<Rightarrow>
          reshape_and_build coefs icpts cls
            (case v_multi_class vars of
               None \<Rightarrow> if length cls < 3 then ''none'' else ''ovr''
             | Some m \<Rightarrow> m)
            (op_type node = ''LinearRegressor'') dev
      | _ \<Rightarrow> Inl (RuntimeError ''Error parsing LinearClassifier, found unexpected None''))"

definition convert_onnx_linear_model ::
    "operator_container option \<Rightarrow> string option \<Rightarrow> extra_config \<Rightarrow> error + linear_model" where
  "convert_onnx_linear_model operator dev extra =
     (case operator of
        None \<Rightarrow> Inl (AssertionError [])
      | Some container \<Rightarrow>
          check_and_build (raw_operator container)
            (read_attributes (origin_attribute (raw_operator container))) dev)"

section \<open>The entry points (convert.py)\<close>

text \<open>
  What \<open>torch_installed()\<close>, \<open>lightgbm_installed()\<close>, \<open>xgboost_installed()\<close> and
  \<open>onnx_installed()\<close> of \<open>_utils\<close> answer in the running process, the bytes the process
  can give to numpy arrays that are alive at the same time, and the width of numpy's
  index type \<open>npy_intp\<close> on the platform (32 or 64 bits).
\<close>

record environment =
  torch_installed :: bool
  lightgbm_installed :: bool
  xgboost_installed :: bool
  onnx_installed :: bool
  memory_bytes :: nat
  intp_bits :: nat

text \<open>
  Modelled from the spec: the module \<open>constants\<close> is not among the sources at hand; the
  spec names the key of the feature-count override \<open>n_features\<close>.
\<close>

definition N_FEATURES :: string where
  "N_FEATURES = ''n_features''"

text \<open>
  A trained model, as far as the entry points look at it: \<open>features_count\<close> is the
  attribute \<open>_features_count\<close> when \<open>dir(model)\<close> lists it. The argument \<open>model\<close> itself
  may be \<open>None\<close>.
\<close>

record estimator =
  est_class :: string
  features_count :: "int option"

text \<open>A test input is a numpy array or some other object.\<close>

datatype test_input = Array ndarray | NotAnArray string

text \<open>
  The extra configuration is a dictionary the caller owns, and an entry point that assigns
  to it changes the caller's dictionary. Every entry point therefore returns, beside its
  result or its exception, the dictionary as it is when the call ends.

  \<open>parse_sklearn_api_model\<close> (of \<open>_parse\<close>) and the topology converter (of
  \<open>ir_converters.topology\<close>) are not among the sources at hand: they are parameters. The
  parser does not receive the configuration; the converter receives it and is free to
  change it.
\<close>

definition convert_sklearn ::
    "environment \<Rightarrow> (estimator \<Rightarrow> error + 't)
       \<Rightarrow> ('t \<Rightarrow> extra_config \<Rightarrow> (error + 'h) \<times> extra_config)
       \<Rightarrow> estimator option \<Rightarrow> test_input option \<Rightarrow> extra_config
       \<Rightarrow> (error + 'h) \<times> extra_config" where
  "convert_sklearn env parse_sklearn_api_model topology_converter model test_input cfg =
     (case model of
        None \<Rightarrow> (Inl (AssertionError []), cfg)
      | Some m \<Rightarrow>
          if \<not> torch_installed env then
            (Inl (AssertionError ''To use Hummingbird you need to install torch.''), cfg)
          else
            (case parse_sklearn_api_model m of
               Inl e \<Rightarrow> (Inl e, cfg)
             | Inr topology \<Rightarrow> topology_converter topology cfg))"

definition convert_lightgbm ::
    "environment \<Rightarrow> (estimator \<Rightarrow> error + 't)
       \<Rightarrow> ('t \<Rightarrow> extra_config \<Rightarrow> (error + 'h) \<times> extra_config)
       \<Rightarrow> estimator option \<Rightarrow> test_input option \<Rightarrow> extra_config
       \<Rightarrow> (error + 'h) \<times> extra_config" where
  "convert_lightgbm env parse_sklearn_api_model topology_converter model test_input cfg =
     (if \<not> lightgbm_installed env then
        (Inl (AssertionError ''To convert LightGBM models you need to instal LightGBM.''), cfg)
      else convert_sklearn env parse_sklearn_api_model topology_converter model test_input cfg)"

text \<open>The two messages of \<open>convert_xgboost\<close>, with the blanks of their continuation lines.\<close>

definition not_an_ndarray_message :: string where
  "not_an_ndarray_message =
     ''XGBoost converter is not able to infer the number of input features.                        Apparently test_input is not an ndarray.                         Please fill an issue at https://github.com/microsoft/hummingbird/.''"

definition no_test_input_message :: string where
  "no_test_input_message =
     ''XGBoost converter is not able to infer the number of input features.                    Please pass some test_input to the converter.''"

text \<open>
  Lines 140 to 156 of \<open>convert_xgboost\<close>: the dictionary after the feature count has been
  looked for, or the exception.
\<close>

definition infer_n_features ::
    "estimator option \<Rightarrow> test_input option \<Rightarrow> extra_config \<Rightarrow> error + extra_config" where
  "infer_n_features model test_input cfg =
     (if cfg N_FEATURES = None then
        (case Option.bind model features_count of
           Some n \<Rightarrow> Inr (cfg(N_FEATURES \<mapsto> PyInt n))
         | None \<Rightarrow>
             (case test_input of
                Some (Array a) \<Rightarrow>
                  if length (nd_shape a) = 2
                  then Inr (cfg(N_FEATURES \<mapsto> PyInt (int (nd_shape a ! 1))))
                  else Inl (RuntimeError not_an_ndarray_message)
              | Some (NotAnArray _) \<Rightarrow> Inl (RuntimeError not_an_ndarray_message)
              | None \<Rightarrow> Inl (RuntimeError no_test_input_message)))
      else Inr cfg)"

definition convert_xgboost ::
    "environment \<Rightarrow> (estimator \<Rightarrow> error + 't)
       \<Rightarrow> ('t \<Rightarrow> extra_config \<Rightarrow> (error + 'h) \<times> extra_config)
       \<Rightarrow> estimator option \<Rightarrow> test_input option \<Rightarrow> extra_config
       \<Rightarrow> (error + 'h) \<times> extra_config" where
  "convert_xgboost env parse_sklearn_api_model topology_converter model test_input cfg =
     (if \<not> xgboost_installed env then
        (Inl (AssertionError ''To convert XGboost models you need to instal XGBoost.''), cfg)
      else
        (case infer_n_features model test_input cfg of
           Inl e \<Rightarrow> (Inl e, cfg)
         | Inr cfg' \<Rightarrow>
             convert_sklearn env parse_sklearn_api_model topology_converter model test_input cfg'))"

subsection \<open>convert_onnxml\<close>

text \<open>An ONNX model, as far as the entry point looks at it: the names of its inputs and outputs.\<close>

record value_info =
  vi_name :: string

record onnx_model =
  model_input :: "value_info list"
  model_output :: "value_info list option"

text \<open>
  An entry of \<open>initial_types\<close> pairs an input name with a data type of
  \<open>onnxmltools.convert.common.data_types\<close>: its class and its \<open>shape\<close>, which is \<open>None\<close> or
  a list of dimensions. A dimension is an integer, \<open>None\<close> or a symbolic name.
\<close>

datatype tensor_class =
    FloatTensorType
  | Int32TensorType
  | Int64TensorType
  | DoubleTensorType
  | StringTensorType
  | BooleanTensorType

datatype dim = DimInt int | DimNone | DimName string

record data_type =
  dt_class :: tensor_class
  dt_shape :: "dim list option"

text \<open>
  Test data, given by the caller or synthesized: its element type and its shape. The
  synthesized values are random and are not modelled.
\<close>

datatype dtype = float32 | int32 | float64

record test_data =
  td_dtype :: dtype
  td_shape :: "nat list"

text \<open>
  \<open>np.random.rand(d0, d1)\<close> is \<open>np.empty((d0, d1))\<close> filled with random float64. numpy
  first converts the dimensions, in order, to its index type \<open>npy_intp\<close>: a dimension that
  is not an integer is a TypeError, one outside the index type a ValueError.
\<close>

definition max_intp :: "environment \<Rightarrow> int" where
  "max_intp env = 2 ^ (intp_bits env - 1) - 1"

definition as_intp :: "environment \<Rightarrow> dim \<Rightarrow> error + int" where
  "as_intp env d =
     (case d of
        DimInt n \<Rightarrow>
          if n < - max_intp env - 1 \<or> max_intp env < n
          then Inl (ValueError ''Maximum allowed dimension exceeded'')
          else Inr n
      | _ \<Rightarrow> Inl (TypeError ''object cannot be interpreted as an integer''))"

text \<open>
  Then it multiplies the item size by the dimensions, in order: a dimension of zero is
  passed over, a negative one is a ValueError, and so is a product that leaves the index
  type, even when another dimension is zero.
\<close>

fun count_bytes :: "environment \<Rightarrow> int list \<Rightarrow> int \<Rightarrow> error + int" where
  "count_bytes env [] nbytes = Inr nbytes"
| "count_bytes env (d # ds) nbytes =
     (if d = 0 then count_bytes env ds nbytes
      else if d < 0 then Inl (ValueError ''negative dimensions are not allowed'')
      else if max_intp env < nbytes * d then Inl (ValueError ''array is too big'')
      else count_bytes env ds (nbytes * d))"

definition itemsize :: "dtype \<Rightarrow> int" where
  "itemsize t = (case t of float64 \<Rightarrow> 8 | float32 \<Rightarrow> 4 | int32 \<Rightarrow> 4)"

text \<open>Last it allocates the elements: a MemoryError when the process cannot give them.\<close>

definition np_random_rand :: "environment \<Rightarrow> dim \<Rightarrow> dim \<Rightarrow> error + test_data" where
  "np_random_rand env d0 d1 =
     (case as_intp env d0 of
        Inl e \<Rightarrow> Inl e
      | Inr r \<Rightarrow>
          (case as_intp env d1 of
             Inl e \<Rightarrow> Inl e
           | Inr c \<Rightarrow>
               (case count_bytes env [r, c] (itemsize float64) of
                  Inl e \<Rightarrow> Inl e
                | Inr nbytes \<Rightarrow>
                    if int (memory_bytes env) < itemsize float64 * (r * c)
                    then Inl (MemoryError ''Unable to allocate'')
                    else Inr \<lparr>td_dtype = float64, td_shape = [nat r, nat c]\<rparr>)))"

text \<open>
  \<open>np.array(a, dtype=t)\<close> copies the array into a new one of element type \<open>t\<close>, while the
  old one is still alive.
\<close>

definition np_array_as :: "environment \<Rightarrow> test_data \<Rightarrow> dtype \<Rightarrow> error + test_data" where
  "np_array_as env a t =
     (if int (memory_bytes env) < (itemsize (td_dtype a) + itemsize t) * int (prod_list (td_shape a))
      then Inl (MemoryError ''Unable to allocate'')
      else Inr (a\<lparr>td_dtype := t\<rparr>))"

text \<open>Lines 217 to 234: the test data made from the one entry of \<open>initial_types\<close>.\<close>

definition synthesize_test_data :: "environment \<Rightarrow> data_type \<Rightarrow> error + test_data" where
  "synthesize_test_data env t =
     (case dt_shape t of
        None \<Rightarrow>
          Inl (AssertionError
                 ''Cannot generate test input data. Initial_types do not contain shape information.'')
      | Some shape \<Rightarrow>
          if length shape \<noteq> 2 then
            Inl (AssertionError ''Hummingbird currently support only inputs with len(shape) == 2.'')
          else
            (case np_random_rand env (shape ! 0) (shape ! 1) of
               Inl e \<Rightarrow> Inl e
             | Inr rnd \<Rightarrow>
                 if dt_class t = FloatTensorType then np_array_as env rnd float32
                 else if dt_class t = Int32TensorType then np_array_as env rnd int32
                 else
                   Inl (RuntimeError
                          ''Type {} not supported. Please fill an issue on https://github.com/microsoft/hummingbird/.'')))"

text \<open>Lines 204 and 205: the inputs of the model whose names are asked for.\<close>

definition resolved_inputs :: "onnx_model \<Rightarrow> string list option \<Rightarrow> value_info list" where
  "resolved_inputs model input_names =
     (let names = (case input_names of
                     Some ns \<Rightarrow> ns
                   | None \<Rightarrow> map vi_name (model_input model))
      in filter (\<lambda>inp. vi_name inp \<in> set names) (model_input model))"

text \<open>Lines 213 and 214.\<close>

definition resolved_output_names :: "onnx_model \<Rightarrow> string list option \<Rightarrow> string list" where
  "resolved_output_names model output_names =
     (case output_names of
        Some ns \<Rightarrow> ns
      | None \<Rightarrow> (case model_output model of None \<Rightarrow> [] | Some os \<Rightarrow> map vi_name os))"

text \<open>
  Lines 216 to 242, after the assertions: the test data, then the two collaborators.
  \<open>LinkedNode.build_from_onnx\<close> (of \<open>onnxconverter_common\<close>) and the linked-node converter
  (of \<open>ir_converters.linked_node\<close>) are not among the sources at hand: they are parameters,
  and only the converter receives the configuration.
\<close>

definition synthesize_and_convert ::
    "environment \<Rightarrow> (onnx_model \<Rightarrow> string list \<Rightarrow> error + 'ir)
       \<Rightarrow> ('ir \<Rightarrow> value_info list \<Rightarrow> string list \<Rightarrow> test_data \<Rightarrow> extra_config
            \<Rightarrow> (error + 'o) \<times> extra_config)
       \<Rightarrow> onnx_model \<Rightarrow> (string \<times> data_type) list option \<Rightarrow> value_info list \<Rightarrow> string list
       \<Rightarrow> test_data option \<Rightarrow> extra_config \<Rightarrow> (error + 'o) \<times> extra_config" where
  "synthesize_and_convert env build_from_onnx linked_node_converter model initial_types inputs
       output_names test_data cfg =
     (case (case test_data of
              Some d \<Rightarrow> Inr d
            | None \<Rightarrow>
                (case initial_types of
                   None \<Rightarrow> Inl (TypeError ''object is not subscriptable'')
                 | Some [] \<Rightarrow> Inl (IndexError ''list index out of range'')
                 | Some (t # _) \<Rightarrow> synthesize_test_data env (snd t))) of
        Inl e \<Rightarrow> (Inl e, cfg)
      | Inr d \<Rightarrow>
          (case build_from_onnx model output_names of
             Inl e \<Rightarrow> (Inl e, cfg)
           | Inr onnx_ir \<Rightarrow> linked_node_converter onnx_ir inputs output_names d cfg))"

text \<open>
  The assertions of lines 194 to 211, in the order of the source. Past them
  \<open>initial_types\<close> is a list of one entry whenever \<open>test_data\<close> is \<open>None\<close>, so that
  the two failures of \<open>initial_types[0]\<close> written out above are never reached from here.
\<close>

definition convert_onnxml ::
    "environment \<Rightarrow> (onnx_model \<Rightarrow> string list \<Rightarrow> error + 'ir)
       \<Rightarrow> ('ir \<Rightarrow> value_info list \<Rightarrow> string list \<Rightarrow> test_data \<Rightarrow> extra_config
            \<Rightarrow> (error + 'o) \<times> extra_config)
       \<Rightarrow> onnx_model option \<Rightarrow> (string \<times> data_type) list option \<Rightarrow> string list option
       \<Rightarrow> string list option \<Rightarrow> test_data option \<Rightarrow> extra_config
       \<Rightarrow> (error + 'o) \<times> extra_config" where
  "convert_onnxml env build_from_onnx linked_node_converter model initial_types input_names
       output_names test_data cfg =
     (case model of
        None \<Rightarrow> (Inl (AssertionError []), cfg)
      | Some m \<Rightarrow>
          if \<not> torch_installed env then
            (Inl (AssertionError ''To use Hummingbird you need to install torch.''), cfg)
          else if \<not> onnx_installed env then
            (Inl (AssertionError
                    ''To use the onnxml converter you need to install onnx and onnxruntime.''), cfg)
          else if test_data = None \<and> initial_types = None then
            (Inl (AssertionError
                    ''Cannot generate test input data. Either pass some input data or the initial_types''),
             cfg)
          else if length (resolved_inputs m input_names) = 0 then
            (Inl (AssertionError
                    (''Provided input name does not match with any model'' @ [CHR 0x27]
                       @ ''s input.'')), cfg)
          else if length (resolved_inputs m input_names) \<noteq> 1 then
            (Inl (AssertionError
                    ''Hummingbird currently do not support models with more than 1 input.''), cfg)
          else if (case initial_types of None \<Rightarrow> False | Some ts \<Rightarrow> length ts \<noteq> 1) then
            (Inl (AssertionError ''len(initial_types) {} differs from len(inputs) {}.''), cfg)
          else
            synthesize_and_convert env build_from_onnx linked_node_converter m initial_types
              (resolved_inputs m input_names) (resolved_output_names m output_names) test_data cfg)"

section \<open>Collaborators for running the entry points\<close>

text \<open>
  The simplest collaborators, to run the entry points on concrete inputs: a parser and a
  graph builder that accept what they are given, and converters that hand it back and
  leave the configuration as it is; and a 64-bit process with every runtime installed and
  a gigabyte for its arrays.
\<close>

definition accepting_parser :: "estimator \<Rightarrow> error + estimator" where
  "accepting_parser m = Inr m"

definition plain_topology_converter ::
    "estimator \<Rightarrow> extra_config \<Rightarrow> (error + estimator) \<times> extra_config" where
  "plain_topology_converter topology cfg = (Inr topology, cfg)"

definition accepting_builder :: "onnx_model \<Rightarrow> string list \<Rightarrow> error + onnx_model" where
  "accepting_builder model output_names = Inr model"

definition plain_linked_node_converter ::
    "onnx_model \<Rightarrow> value_info list \<Rightarrow> string list \<Rightarrow> test_data \<Rightarrow> extra_config
       \<Rightarrow> (error + test_data) \<times> extra_config" where
  "plain_linked_node_converter onnx_ir inputs output_names d cfg = (Inr d, cfg)"

definition all_installed :: environment where
  "all_installed = \<lparr>torch_installed = True, lightgbm_installed = True,
                      xgboost_installed = True, onnx_installed = True,
                      memory_bytes = 2 ^ 30, intp_bits = 64\<rparr>"

text \<open>An attribute with only its name set, as protobuf leaves the fields that are not given.\<close>

definition named_attribute :: "string \<Rightarrow> attribute_proto" where
  "named_attribute n =
     \<lparr>attr_name = n, attr_floats = [], attr_ints = [], attr_i = 0, attr_strings = []\<rparr>"

definition linear_classifier :: "attribute_proto list \<Rightarrow> operator_container option" where
  "linear_classifier attrs =
     Some \<lparr>raw_operator = \<lparr>op_type = ''LinearClassifier'', origin_attribute = attrs\<rparr>\<rparr>"

section \<open>What the attribute loop leaves in its variables\<close>

text \<open>
  A variable is still \<open>None\<close> after the loop exactly when it was \<open>None\<close> before and no
  attribute carries its name; the mode is \<open>multinomial\<close> exactly when some attribute
  \<open>multi_class\<close> is not zero.
\<close>

lemma v_coefficients_fold:
  "v_coefficients (fold read_attribute attrs s) = None \<longleftrightarrow>
     v_coefficients s = None \<and> (\<forall>a\<in>set attrs. attr_name a \<noteq> ''coefficients'')"
  by (induction attrs arbitrary: s) (auto simp: read_attribute_def)

lemma v_intercepts_fold:
  "v_intercepts (fold read_attribute attrs s) = None \<longleftrightarrow>
     v_intercepts s = None \<and> (\<forall>a\<in>set attrs. attr_name a \<noteq> ''intercepts'')"
  by (induction attrs arbitrary: s) (auto simp: read_attribute_def)

lemma v_classes_fold:
  "v_classes (fold read_attribute attrs s) = None \<longleftrightarrow>
     v_classes s = None \<and> (\<forall>a\<in>set attrs. attr_name a \<noteq> ''classlabels_ints'')"
  by (induction attrs arbitrary: s) (auto simp: read_attribute_def)

lemma v_multi_class_fold:
  "v_multi_class (fold read_attribute attrs s) =
     (if \<exists>a\<in>set attrs. attr_name a = ''multi_class'' \<and> attr_i a \<noteq> 0
      then Some ''multinomial'' else v_multi_class s)"
  by (induction attrs arbitrary: s) (auto simp: read_attribute_def)

text \<open>
  What the loop has read under a name is the value of the last attribute of that name:
  a later attribute overwrites an earlier one.
\<close>

lemma read_attributes_snoc:
  "read_attributes (attrs @ [a]) = read_attribute a (read_attributes attrs)"
  by (simp add: read_attributes_def)

lemma read_coefficients_last:
  "v_coefficients (read_attributes attrs) =
     map_option attr_floats (List.find (\<lambda>a. attr_name a = ''coefficients'') (rev attrs))"
proof (induction attrs rule: rev_induct)
  case Nil
  show ?case by (simp add: read_attributes_def no_vars_def)
next
  case (snoc a attrs)
  then show ?case by (simp add: read_attributes_snoc read_attribute_def)
qed

lemma read_intercepts_last:
  "v_intercepts (read_attributes attrs) =
     map_option attr_floats (List.find (\<lambda>a. attr_name a = ''intercepts'') (rev attrs))"
proof (induction attrs rule: rev_induct)
  case Nil
  show ?case by (simp add: read_attributes_def no_vars_def)
next
  case (snoc a attrs)
  then show ?case by (simp add: read_attributes_snoc read_attribute_def)
qed

lemma read_classes_last:
  "v_classes (read_attributes attrs) =
     map_option attr_ints (List.find (\<lambda>a. attr_name a = ''classlabels_ints'') (rev attrs))"
proof (induction attrs rule: rev_induct)
  case Nil
  show ?case by (simp add: read_attributes_def no_vars_def)
next
  case (snoc a attrs)
  then show ?case by (simp add: read_attributes_snoc read_attribute_def)
qed

section \<open>Rows, columns and the transposition\<close>

lemma concat_singletons: "concat (map (\<lambda>val. [val]) xs) = xs"
  by (induction xs) simp_all

lemma np_array_rows_singletons:
  "xs \<noteq> [] \<Longrightarrow> np_array_rows (map (\<lambda>val. [val]) xs) = \<lparr>nd_shape = [length xs, 1], nd_data = xs\<rparr>"
  by (cases xs) (simp_all add: np_array_rows_def concat_singletons)

lemma concat_nth_uniform:
  "\<forall>xs\<in>set xss. length xs = c \<Longrightarrow> i < length xss \<Longrightarrow> j < c \<Longrightarrow>
     concat xss ! (i * c + j) = xss ! i ! j"
proof (induction xss arbitrary: i)
  case Nil
  then show ?case by simp
next
  case (Cons xs xss)
  show ?case
  proof (cases i)
    case 0
    with Cons.prems show ?thesis by (simp add: nth_append)
  next
    case (Suc k)
    with Cons.prems have "concat xss ! (k * c + j) = xss ! k ! j"
      by (intro Cons.IH) simp_all
    moreover have "length xs = c" using Cons.prems by simp
    ultimately show ?thesis using Suc by (simp add: nth_append)
  qed
qed

lemma fold_min_uniform:
  "\<forall>row\<in>set rs. length row = m \<Longrightarrow> fold (\<lambda>row acc. min (length row) acc) rs m = m"
  by (induction rs) simp_all

lemma zip_star_uniform:
  assumes "rows \<noteq> []" and "\<forall>row\<in>set rows. length row = m"
  shows "zip_star rows = map (\<lambda>i. map (\<lambda>row. row ! i) rows) [0..<m]"
proof (cases rows)
  case Nil
  with assms show ?thesis by simp
next
  case (Cons r rs)
  with assms have "fold (\<lambda>row acc. min (length row) acc) rs (length r) = m"
    using fold_min_uniform [of rs m] by simp
  with Cons show ?thesis by (simp add: zip_star_def)
qed

lemma rows_of_reshaped:
  "rows_of \<lparr>nd_shape = [c, m], nd_data = xs\<rparr> = map (\<lambda>k. take m (drop (k * m) xs)) [0..<c]"
  by (simp add: rows_of_def)

lemma block_length:
  assumes "length xs = c * m" and "k < c"
  shows "length (take m (drop (k * m) xs)) = m"
proof -
  have "Suc k * m \<le> c * m" using assms(2) by (intro mult_le_mono1) simp
  then show ?thesis using assms(1) by simp
qed

lemma block_nth:
  assumes "length xs = c * m" and "k < c" and "i < m"
  shows "take m (drop (k * m) xs) ! i = xs ! (k * m + i)"
proof -
  have "k * m \<le> c * m" using assms(2) by (intro mult_le_mono1) simp
  then show ?thesis using assms by simp
qed

lemma transposed_blocks:
  fixes xs :: "real list"
  assumes len: "length xs = c * m" and c: "0 < c" and m: "0 < m"
  defines "a \<equiv> np_array_rows (zip_star (rows_of \<lparr>nd_shape = [c, m], nd_data = xs\<rparr>))"
  shows "nd_shape a = [m, c]"
    and "j < c \<Longrightarrow> column a j = take m (drop (j * m) xs)"
proof -
  let ?rows = "map (\<lambda>k. take m (drop (k * m) xs)) [0..<c]"
  let ?cols = "map (\<lambda>i. map (\<lambda>row. row ! i) ?rows) [0..<m]"
  have uniform: "\<forall>row\<in>set ?rows. length row = m"
    using block_length [OF len] by auto
  have "?rows \<noteq> []" using c by simp
  then have zs: "zip_star ?rows = ?cols"
    using uniform by (rule zip_star_uniform)
  obtain col cols where cols: "?cols = col # cols" and col: "length col = c"
    using m by (cases "?cols") (auto simp: upt_conv_Cons)
  have a: "a = \<lparr>nd_shape = [m, c], nd_data = concat ?cols\<rparr>"
  proof -
    have "length ?cols = m" by simp
    then show ?thesis
      unfolding a_def rows_of_reshaped zs np_array_rows_def using cols col
      by (simp del: map_map)
  qed
  show "nd_shape a = [m, c]" by (simp add: a)
  assume j: "j < c"
  have "entry a i j = xs ! (j * m + i)" if i: "i < m" for i
  proof -
    have "concat ?cols ! (i * c + j) = ?cols ! i ! j"
      using i j by (intro concat_nth_uniform) simp_all
    also have "\<dots> = take m (drop (j * m) xs) ! i" using i j by simp
    also have "\<dots> = xs ! (j * m + i)"
      using block_nth [OF len j i] .
    finally show ?thesis by (simp add: entry_def a)
  qed
  moreover have "length (take m (drop (j * m) xs)) = m"
    using block_length [OF len j] .
  moreover have "take m (drop (j * m) xs) ! i = xs ! (j * m + i)" if "i < m" for i
    using block_nth [OF len j that] .
  ultimately show "column a j = take m (drop (j * m) xs)"
    by (intro nth_equalityI) (simp_all add: column_def a)
qed

lemmas run_linear = convert_onnx_linear_model_def check_and_build_def read_attributes_def
  read_attribute_def no_vars_def reshape_and_build_def linear_classifier_def named_attribute_def

section \<open>The configuration across the entry points\<close>

lemma infer_n_features_frame:
  "infer_n_features model test_input cfg = Inr cfg' \<Longrightarrow> k \<noteq> N_FEATURES \<Longrightarrow> cfg' k = cfg k"
  by (auto simp: infer_n_features_def split: if_splits option.splits test_input.splits)

lemma infer_n_features_supplied:
  "cfg N_FEATURES \<noteq> None \<Longrightarrow> infer_n_features model test_input cfg = Inr cfg"
  by (auto simp: infer_n_features_def)

lemma convert_sklearn_frame:
  assumes "\<forall>t c. snd (topology_converter t c) = c"
  shows "snd (convert_sklearn env parse topology_converter model test_input cfg) = cfg"
  using assms by (simp add: convert_sklearn_def split: option.splits sum.splits)

lemma synthesize_and_convert_frame:
  assumes "\<forall>ir ins outs d c. snd (linked_node_converter ir ins outs d c) = c"
  shows "snd (synthesize_and_convert env build linked_node_converter m initial_types ins outs
                test_data cfg) = cfg"
  using assms by (simp add: synthesize_and_convert_def split: sum.splits)

section \<open>Arrays that numpy can allocate\<close>

text \<open>
  Two dimensions that are not negative, whose bytes stay inside the index type and inside
  the memory of the process, give the array: first the float64 one, then its copy.
\<close>

lemma count_bytes_fits:
  assumes "0 \<le> r" and "0 \<le> c" and "8 * (max 1 r * max 1 c) \<le> max_intp env"
  shows "\<exists>nbytes. count_bytes env [r, c] 8 = Inr nbytes"
proof -
  have r1: "r \<le> max 1 r" and c1: "c \<le> max 1 c" and "1 \<le> max 1 r" and "1 \<le> max 1 c"
    by simp_all
  have "r * 1 \<le> max 1 r * max 1 c"
    using assms(1) by (intro mult_mono) simp_all
  then have r: "8 * r \<le> max_intp env" using assms(3) by simp
  have "r * c \<le> max 1 r * max 1 c"
    using assms(1,2) by (intro mult_mono) simp_all
  then have rc: "8 * r * c \<le> max_intp env" using assms(3) by simp
  have "1 * c \<le> max 1 r * max 1 c"
    using assms(2) by (intro mult_mono) simp_all
  then have c: "8 * c \<le> max_intp env" using assms(3) by simp
  show ?thesis
    using assms(1,2) r rc c by (simp add: not_less)
qed

lemma as_intp_fits:
  assumes "0 \<le> n" and "n \<le> max_intp env"
  shows "as_intp env (DimInt n) = Inr n"
  using assms by (simp add: as_intp_def)

lemma np_random_rand_fits:
  assumes "0 \<le> r" and "0 \<le> c" and "8 * (max 1 r * max 1 c) \<le> max_intp env"
      and "8 * (r * c) \<le> int (memory_bytes env)"
  shows "np_random_rand env (DimInt r) (DimInt c) = Inr \<lparr>td_dtype = float64, td_shape = [nat r, nat c]\<rparr>"
proof -
  have "r * 1 \<le> max 1 r * max 1 c"
    using assms(1) by (intro mult_mono) simp_all
  then have r: "r \<le> max_intp env" using assms(1,3) by simp
  have "1 * c \<le> max 1 r * max 1 c"
    using assms(2) by (intro mult_mono) simp_all
  then have c: "c \<le> max_intp env" using assms(2,3) by simp
  obtain nbytes where "count_bytes env [r, c] 8 = Inr nbytes"
    using count_bytes_fits [OF assms(1-3)] by blast
  then show ?thesis
    using assms(4) as_intp_fits [OF assms(1) r] as_intp_fits [OF assms(2) c]
    by (simp add: np_random_rand_def itemsize_def)
qed

lemma np_array_as_fits:
  assumes "0 \<le> r" and "0 \<le> c" and "12 * (r * c) \<le> int (memory_bytes env)"
      and "t = float32 \<or> t = int32"
  shows "np_array_as env \<lparr>td_dtype = float64, td_shape = [nat r, nat c]\<rparr> t =
           Inr \<lparr>td_dtype = t, td_shape = [nat r, nat c]\<rparr>"
proof -
  have "int (nat r * nat c) = r * c"
    using assms(1,2) by simp
  then show ?thesis
    using assms(3,4) by (auto simp: np_array_as_def itemsize_def)
qed

section \<open>The linear-model converter: binary case\<close>

text \<open>
  An operator with two classes and no coefficient at all: the list comprehension is empty,
  and \<open>np.array([])\<close> is the one-dimensional empty array. Its shape is \<open>(0,)\<close>, not the
  \<open>(0, 1)\<close> of zero rows of one value.
\<close>

theorem binary_case_counterexample:
  "convert_onnx_linear_model
     (linear_classifier
        [named_attribute ''coefficients'', named_attribute ''intercepts'',
         (named_attribute ''classlabels_ints'')\<lparr>attr_ints := [0, 1]\<rparr>]) None Map.empty =
   Inr \<lparr>coefficients = \<lparr>nd_shape = [0], nd_data = []\<rparr>,
        intercepts = \<lparr>nd_shape = [0], nd_data = []\<rparr>,
        device = None, classes = [0, 1], multi_class = ''none'',
        is_linear_regression = False\<rparr>
   \<and> \<lparr>nd_shape = [0], nd_data = []\<rparr> \<noteq> \<lparr>nd_shape = [0, 1], nd_data = []\<rparr>"
  by (simp add: run_linear np_array_rows_def)

text \<open>
  C1, for arrays that are not empty. For an operator with exactly two classes whose
  coefficients have length \<open>2k\<close> and whose intercepts have length \<open>2l\<close>, with \<open>k\<close> and \<open>l\<close> at
  least one, the converter returns a fragment; its coefficient tensor has shape \<open>(k, 1)\<close>
  and holds the second half \<open>[k:2k]\<close> of the raw coefficients, one row per value, and its
  intercept tensor has shape \<open>(l, 1)\<close> and holds the second half of the raw intercepts.
  The first end-to-end scenario of the specification is an instance: coefficients
  \<open>[1, 2, -1, -2]\<close>, intercepts \<open>[0.5, -0.5]\<close> and classes \<open>[0, 1]\<close> give \<open>[[-1], [-2]]\<close>
  and \<open>[[-0.5]]\<close>.
\<close>

theorem binary_case_second_half:
  assumes "v_coefficients (read_attributes (origin_attribute (raw_operator operator))) = Some coefs"
      and "v_intercepts (read_attributes (origin_attribute (raw_operator operator))) = Some icpts"
      and "v_classes (read_attributes (origin_attribute (raw_operator operator))) = Some cls"
      and "length cls = 2"
      and "length coefs = 2 * k" and "0 < k"
      and "length icpts = 2 * l" and "0 < l"
  shows "\<exists>frag. convert_onnx_linear_model (Some operator) dev extra = Inr frag
           \<and> coefficients frag = \<lparr>nd_shape = [k, 1], nd_data = drop k coefs\<rparr>
           \<and> intercepts frag = \<lparr>nd_shape = [l, 1], nd_data = drop l icpts\<rparr>"
proof -
  have "drop k coefs \<noteq> []" and "drop l icpts \<noteq> []"
    using assms by auto
  then have "np_array_rows (map (\<lambda>val. [val]) (drop k coefs)) =
               \<lparr>nd_shape = [k, 1], nd_data = drop k coefs\<rparr>"
    and "np_array_rows (map (\<lambda>val. [val]) (drop l icpts)) =
               \<lparr>nd_shape = [l, 1], nd_data = drop l icpts\<rparr>"
    using assms by (simp_all add: np_array_rows_singletons)
  then show ?thesis
    using assms
    by (simp add: convert_onnx_linear_model_def check_and_build_def reshape_and_build_def)
qed

theorem binary_case_second_half_witness:
  "\<exists>frag. convert_onnx_linear_model
     (linear_classifier
        [(named_attribute ''coefficients'')\<lparr>attr_floats := [1, 2, - 1, - 2]\<rparr>,
         (named_attribute ''intercepts'')\<lparr>attr_floats := [1 / 2, - 1 / 2]\<rparr>,
         (named_attribute ''classlabels_ints'')\<lparr>attr_ints := [0, 1]\<rparr>]) None Map.empty = Inr frag
     \<and> coefficients frag = \<lparr>nd_shape = [2, 1], nd_data = [- 1, - 2]\<rparr>
     \<and> intercepts frag = \<lparr>nd_shape = [1, 1], nd_data = [- 1 / 2]\<rparr>"
  using binary_case_second_half
    [of "the (linear_classifier
        [(named_attribute ''coefficients'')\<lparr>attr_floats := [1, 2, - 1, - 2]\<rparr>,
         (named_attribute ''intercepts'')\<lparr>attr_floats := [1 / 2, - 1 / 2]\<rparr>,
         (named_attribute ''classlabels_ints'')\<lparr>attr_ints := [0, 1]\<rparr>])"
        "[1, 2, - 1, - 2]" "[1 / 2, - 1 / 2]" "[0, 1]" 2 1 None Map.empty]
  by (simp add: linear_classifier_def named_attribute_def read_attributes_def read_attribute_def
        no_vars_def)

section \<open>The linear-model converter: multiclass case\<close>

text \<open>
  Three classes and no coefficient: the reshape to \<open>(3, 0)\<close> succeeds, \<open>zip\<close> over three
  empty rows yields nothing, and the coefficient tensor is again the empty array of shape
  \<open>(0,)\<close>, not \<open>(0, 3)\<close>.
\<close>

theorem multiclass_case_counterexample:
  "convert_onnx_linear_model
     (linear_classifier
        [named_attribute ''coefficients'', (named_attribute ''intercepts'')\<lparr>attr_floats := [7, 8, 9]\<rparr>,
         (named_attribute ''classlabels_ints'')\<lparr>attr_ints := [0, 1, 2]\<rparr>]) None Map.empty =
   Inr \<lparr>coefficients = \<lparr>nd_shape = [0], nd_data = []\<rparr>,
        intercepts = \<lparr>nd_shape = [3], nd_data = [7, 8, 9]\<rparr>,
        device = None, classes = [0, 1, 2], multi_class = ''ovr'',
        is_linear_regression = False\<rparr>
   \<and> nd_shape \<lparr>nd_shape = [0], nd_data = []\<rparr> \<noteq> [0, 3]"
  by (simp add: run_linear reshape_def rows_of_def zip_star_def np_array_rows_def np_array_def
        upt_conv_Cons)

text \<open>
  C2, for \<open>m\<close> at least one. For an operator with \<open>c > 2\<close> classes and \<open>c * m\<close>
  coefficients, the converter returns a fragment whose intercepts are the raw intercepts
  as a flat array, and whose coefficient tensor has shape \<open>(m, c)\<close> with column \<open>j\<close> equal
  to the block \<open>[j*m : (j+1)*m]\<close> of the raw coefficients.
\<close>

theorem multiclass_case_transposed:
  assumes "v_coefficients (read_attributes (origin_attribute (raw_operator operator))) = Some coefs"
      and "v_intercepts (read_attributes (origin_attribute (raw_operator operator))) = Some icpts"
      and "v_classes (read_attributes (origin_attribute (raw_operator operator))) = Some cls"
      and "2 < length cls"
      and "length coefs = length cls * m" and "0 < m"
  shows "\<exists>frag. convert_onnx_linear_model (Some operator) dev extra = Inr frag
           \<and> intercepts frag = np_array icpts
           \<and> nd_shape (coefficients frag) = [m, length cls]
           \<and> (\<forall>j<length cls. column (coefficients frag) j = take m (drop (j * m) coefs))"
proof -
  let ?c = "length cls"
  have c: "0 < ?c" using assms(4) by auto
  have "length coefs div ?c = m" using assms(5) c by simp
  then have tmp: "reshape coefs ?c (length coefs div ?c) = Inr \<lparr>nd_shape = [?c, m], nd_data = coefs\<rparr>"
    using assms(5) by (simp add: reshape_def)
  let ?a = "np_array_rows (zip_star (rows_of \<lparr>nd_shape = [?c, m], nd_data = coefs\<rparr>))"
  have "nd_shape ?a = [m, ?c]"
    and "\<forall>j<?c. column ?a j = take m (drop (j * m) coefs)"
    using transposed_blocks [OF assms(5) c assms(6)] by simp_all
  then show ?thesis
    using assms tmp
    by (simp add: convert_onnx_linear_model_def check_and_build_def reshape_and_build_def)
qed

theorem multiclass_case_transposed_witness:
  "\<exists>frag. convert_onnx_linear_model
     (linear_classifier
        [(named_attribute ''coefficients'')\<lparr>attr_floats := [1, 2, 3, 4, 5, 6]\<rparr>,
         (named_attribute ''intercepts'')\<lparr>attr_floats := [7, 8, 9]\<rparr>,
         (named_attribute ''classlabels_ints'')\<lparr>attr_ints := [0, 1, 2]\<rparr>]) None Map.empty = Inr frag
     \<and> intercepts frag = \<lparr>nd_shape = [3], nd_data = [7, 8, 9]\<rparr>
     \<and> nd_shape (coefficients frag) = [2, 3]
     \<and> column (coefficients frag) 0 = [1, 2]
     \<and> column (coefficients frag) 1 = [3, 4]
     \<and> column (coefficients frag) 2 = [5, 6]"
proof -
  obtain frag where
    frag: "convert_onnx_linear_model
             (linear_classifier
                [(named_attribute ''coefficients'')\<lparr>attr_floats := [1, 2, 3, 4, 5, 6]\<rparr>,
                 (named_attribute ''intercepts'')\<lparr>attr_floats := [7, 8, 9]\<rparr>,
                 (named_attribute ''classlabels_ints'')\<lparr>attr_ints := [0, 1, 2]\<rparr>])
             None Map.empty = Inr frag"
      and icpts: "intercepts frag = np_array [7, 8, 9]"
      and shape: "nd_shape (coefficients frag) = [2, 3]"
      and cols: "\<forall>j<3. column (coefficients frag) j = take 2 (drop (j * 2) [1, 2, 3, 4, 5, 6])"
    using multiclass_case_transposed
      [of "the (linear_classifier
          [(named_attribute ''coefficients'')\<lparr>attr_floats := [1, 2, 3, 4, 5, 6]\<rparr>,
           (named_attribute ''intercepts'')\<lparr>attr_floats := [7, 8, 9]\<rparr>,
           (named_attribute ''classlabels_ints'')\<lparr>attr_ints := [0, 1, 2]\<rparr>])"
          "[1, 2, 3, 4, 5, 6]" "[7, 8, 9]" "[0, 1, 2]" 2 None Map.empty]
    by (auto simp: linear_classifier_def named_attribute_def read_attributes_def
          read_attribute_def no_vars_def)
  have "column (coefficients frag) 0 = [1, 2]"
    and "column (coefficients frag) 1 = [3, 4]"
    and "column (coefficients frag) 2 = [5, 6]"
    using cols by simp_all
  then show ?thesis
    using frag icpts shape by (simp add: np_array_def)
qed

section \<open>The linear-model converter: multi-class mode\<close>

text \<open>
  C3. Whenever the converter returns a fragment, its multi-class mode is \<open>multinomial\<close> if
  some attribute named \<open>multi_class\<close> has a value other than zero, whatever the number of
  classes; otherwise it is \<open>none\<close> for fewer than three classes and \<open>ovr\<close> for three or
  more.
\<close>

theorem multi_class_mode:
  assumes "convert_onnx_linear_model (Some operator) dev extra = Inr frag"
  shows "multi_class frag =
           (if \<exists>a\<in>set (origin_attribute (raw_operator operator)).
                  attr_name a = ''multi_class'' \<and> attr_i a \<noteq> 0
            then ''multinomial''
            else if length (classes frag) < 3 then ''none'' else ''ovr'')"
proof -
  let ?attrs = "origin_attribute (raw_operator operator)"
  obtain coefs icpts cls where
    cls: "v_classes (read_attributes ?attrs) = Some cls" and
    build: "reshape_and_build coefs icpts cls
              (case v_multi_class (read_attributes ?attrs) of
                 None \<Rightarrow> if length cls < 3 then ''none'' else ''ovr''
               | Some m \<Rightarrow> m)
              (op_type (raw_operator operator) = ''LinearRegressor'') dev = Inr frag"
    using assms
    by (auto simp: convert_onnx_linear_model_def check_and_build_def split: option.splits)
  from build have "classes frag = cls"
    and "multi_class frag = (case v_multi_class (read_attributes ?attrs) of
                 None \<Rightarrow> if length cls < 3 then ''none'' else ''ovr''
               | Some m \<Rightarrow> m)"
    by (auto simp: reshape_and_build_def split: if_splits sum.splits)
  then show ?thesis
    by (simp add: read_attributes_def v_multi_class_fold no_vars_def)
qed

theorem multi_class_mode_witness:
  "convert_onnx_linear_model
     (linear_classifier
        [(named_attribute ''coefficients'')\<lparr>attr_floats := [1, 2, - 1, - 2]\<rparr>,
         (named_attribute ''intercepts'')\<lparr>attr_floats := [1 / 2, - 1 / 2]\<rparr>,
         (named_attribute ''classlabels_ints'')\<lparr>attr_ints := [0, 1]\<rparr>,
         (named_attribute ''multi_class'')\<lparr>attr_i := 1\<rparr>]) None Map.empty =
   Inr \<lparr>coefficients = \<lparr>nd_shape = [2, 1], nd_data = [- 1, - 2]\<rparr>,
        intercepts = \<lparr>nd_shape = [1, 1], nd_data = [- 1 / 2]\<rparr>,
        device = None, classes = [0, 1], multi_class = ''multinomial'',
        is_linear_regression = False\<rparr>
   \<and> convert_onnx_linear_model
     (linear_classifier
        [(named_attribute ''coefficients'')\<lparr>attr_floats := [1, 2, 3, 4, 5, 6]\<rparr>,
         (named_attribute ''intercepts'')\<lparr>attr_floats := [7, 8, 9]\<rparr>,
         (named_attribute ''multi_class'')\<lparr>attr_i := 0\<rparr>,
         (named_attribute ''classlabels_ints'')\<lparr>attr_ints := [0, 1, 2]\<rparr>]) None Map.empty =
   Inr \<lparr>coefficients = \<lparr>nd_shape = [2, 3], nd_data = [1, 3, 5, 2, 4, 6]\<rparr>,
        intercepts = \<lparr>nd_shape = [3], nd_data = [7, 8, 9]\<rparr>,
        device = None, classes = [0, 1, 2], multi_class = ''ovr'',
        is_linear_regression = False\<rparr>"
proof -
  let ?a = "the (linear_classifier
        [(named_attribute ''coefficients'')\<lparr>attr_floats := [1, 2, - 1, - 2]\<rparr>,
         (named_attribute ''intercepts'')\<lparr>attr_floats := [1 / 2, - 1 / 2]\<rparr>,
         (named_attribute ''classlabels_ints'')\<lparr>attr_ints := [0, 1]\<rparr>,
         (named_attribute ''multi_class'')\<lparr>attr_i := 1\<rparr>])"
  let ?b = "the (linear_classifier
        [(named_attribute ''coefficients'')\<lparr>attr_floats := [1, 2, 3, 4, 5, 6]\<rparr>,
         (named_attribute ''intercepts'')\<lparr>attr_floats := [7, 8, 9]\<rparr>,
         (named_attribute ''multi_class'')\<lparr>attr_i := 0\<rparr>,
         (named_attribute ''classlabels_ints'')\<lparr>attr_ints := [0, 1, 2]\<rparr>])"
  let ?fa = "\<lparr>coefficients = \<lparr>nd_shape = [2, 1], nd_data = [- 1, - 2]\<rparr>,
        intercepts = \<lparr>nd_shape = [1, 1], nd_data = [- 1 / 2]\<rparr>,
        device = None, classes = [0, 1], multi_class = ''multinomial'',
        is_linear_regression = False\<rparr>"
  let ?fb = "\<lparr>coefficients = \<lparr>nd_shape = [2, 3], nd_data = [1, 3, 5, 2, 4, 6]\<rparr>,
        intercepts = \<lparr>nd_shape = [3], nd_data = [7, 8, 9]\<rparr>,
        device = None, classes = [0, 1, 2], multi_class = ''ovr'',
        is_linear_regression = False\<rparr>"
  have a: "convert_onnx_linear_model (Some ?a) None Map.empty = Inr ?fa"
    by (simp add: run_linear np_array_rows_def)
  have b: "convert_onnx_linear_model (Some ?b) None Map.empty = Inr ?fb"
    by (simp add: run_linear reshape_def rows_of_def zip_star_def np_array_rows_def np_array_def
          upt_conv_Cons)
  show ?thesis
    using a b multi_class_mode [OF a] multi_class_mode [OF b]
    by (simp add: linear_classifier_def)
qed

section \<open>The extra configuration\<close>

text \<open>
  \<open>convert_xgboost\<close> is called with an empty configuration and a model that reports five
  features: when the call ends the caller's dictionary holds the key \<open>n_features\<close>.
\<close>

theorem extra_config_counterexample:
  "snd (convert_xgboost all_installed accepting_parser plain_topology_converter
          (Some \<lparr>est_class = ''XGBClassifier'', features_count = Some 5\<rparr>) None Map.empty) =
     [''n_features'' \<mapsto> PyInt 5]
   \<and> [''n_features'' \<mapsto> PyInt 5] \<noteq> (Map.empty :: extra_config)"
  by (simp add: convert_xgboost_def all_installed_def infer_n_features_def N_FEATURES_def
        convert_sklearn_def accepting_parser_def plain_topology_converter_def)

text \<open>
  C4, with the one write of the entry points named. Provided the converters the entry
  points delegate to do not write to the configuration: \<open>convert_sklearn\<close>,
  \<open>convert_lightgbm\<close> and \<open>convert_onnxml\<close> end, with a result or an exception, with the
  caller's configuration as it was. \<open>convert_xgboost\<close>, when XGBoost is installed and the
  caller supplied no \<open>n_features\<close>, ends with the caller's configuration and the key
  \<open>n_features\<close> added to it: it holds the count the model reports, or else the second
  dimension of a two-dimensional test input. When XGBoost is not installed, when the
  caller supplied \<open>n_features\<close>, or when neither the model nor the test input gives a
  count, it ends with the caller's configuration as it was. In every case the keys other
  than \<open>n_features\<close> keep their values.
\<close>

theorem extra_config_frame:
  assumes "\<forall>t c. snd (topology_converter t c) = c"
      and "\<forall>ir ins outs d c. snd (linked_node_converter ir ins outs d c) = c"
  shows "snd (convert_sklearn env parse topology_converter model test_input cfg) = cfg
       \<and> snd (convert_lightgbm env parse topology_converter model test_input cfg) = cfg
       \<and> snd (convert_onnxml env build linked_node_converter omodel initial_types input_names
                 output_names test_data cfg) = cfg
       \<and> (\<forall>n. xgboost_installed env \<and> cfg N_FEATURES = None
              \<and> Option.bind model features_count = Some n \<longrightarrow>
            snd (convert_xgboost env parse topology_converter model test_input cfg) =
              cfg(N_FEATURES \<mapsto> PyInt n))
       \<and> (\<forall>a. xgboost_installed env \<and> cfg N_FEATURES = None
              \<and> Option.bind model features_count = None
              \<and> test_input = Some (Array a) \<and> length (nd_shape a) = 2 \<longrightarrow>
            snd (convert_xgboost env parse topology_converter model test_input cfg) =
              cfg(N_FEATURES \<mapsto> PyInt (int (nd_shape a ! 1))))
       \<and> (\<not> xgboost_installed env \<or> cfg N_FEATURES \<noteq> None
            \<or> (Option.bind model features_count = None
                \<and> (\<forall>a. test_input = Some (Array a) \<longrightarrow> length (nd_shape a) \<noteq> 2)) \<longrightarrow>
            snd (convert_xgboost env parse topology_converter model test_input cfg) = cfg)
       \<and> (\<forall>k. k \<noteq> N_FEATURES \<longrightarrow>
             snd (convert_xgboost env parse topology_converter model test_input cfg) k = cfg k)"
proof -
  note sk = convert_sklearn_frame [OF assms(1)]
  have lgbm: "snd (convert_lightgbm env parse topology_converter model test_input cfg) = cfg"
    by (simp add: convert_lightgbm_def sk)
  have onnx: "snd (convert_onnxml env build linked_node_converter omodel initial_types input_names
                 output_names test_data cfg) = cfg"
    by (simp add: convert_onnxml_def synthesize_and_convert_frame [OF assms(2)]
          split: option.splits)
  have xgb: "snd (convert_xgboost env parse topology_converter model test_input cfg) =
           (if xgboost_installed env then
              (case infer_n_features model test_input cfg of Inl e \<Rightarrow> cfg | Inr cfg' \<Rightarrow> cfg')
            else cfg)"
    by (simp add: convert_xgboost_def sk split: sum.splits)
  have reported: "snd (convert_xgboost env parse topology_converter model test_input cfg) =
              cfg(N_FEATURES \<mapsto> PyInt n)"
    if "xgboost_installed env" and "cfg N_FEATURES = None"
      and "Option.bind model features_count = Some n" for n
    using that by (simp add: xgb infer_n_features_def)
  have shaped: "snd (convert_xgboost env parse topology_converter model test_input cfg) =
              cfg(N_FEATURES \<mapsto> PyInt (int (nd_shape a ! 1)))"
    if "xgboost_installed env" and "cfg N_FEATURES = None"
      and "Option.bind model features_count = None"
      and "test_input = Some (Array a)" and "length (nd_shape a) = 2" for a
    unfolding xgb using that by (simp add: infer_n_features_def)
  have same: "snd (convert_xgboost env parse topology_converter model test_input cfg) = cfg"
    if "\<not> xgboost_installed env \<or> cfg N_FEATURES \<noteq> None
            \<or> (Option.bind model features_count = None
                \<and> (\<forall>a. test_input = Some (Array a) \<longrightarrow> length (nd_shape a) \<noteq> 2))"
    unfolding xgb using that
    by (auto simp: infer_n_features_def split: option.splits test_input.splits)
  have other: "snd (convert_xgboost env parse topology_converter model test_input cfg) k = cfg k"
    if "k \<noteq> N_FEATURES" for k
    using that infer_n_features_frame [of model test_input cfg _ k]
    by (simp add: xgb split: sum.splits)
  show ?thesis
    using sk lgbm onnx reported shaped same other by blast
qed

theorem extra_config_frame_witness:
  "(\<forall>t c. snd (plain_topology_converter t c) = c)
   \<and> (\<forall>ir ins outs d c. snd (plain_linked_node_converter ir ins outs d c) = c)
   \<and> snd (convert_sklearn all_installed accepting_parser plain_topology_converter
             (Some \<lparr>est_class = ''XGBClassifier'', features_count = Some 5\<rparr>) None
             [''device'' \<mapsto> PyStr ''cpu'']) = [''device'' \<mapsto> PyStr ''cpu'']
   \<and> snd (convert_xgboost all_installed accepting_parser plain_topology_converter
             (Some \<lparr>est_class = ''XGBClassifier'', features_count = Some 5\<rparr>) None
             [''device'' \<mapsto> PyStr ''cpu'']) =
         [''device'' \<mapsto> PyStr ''cpu'', ''n_features'' \<mapsto> PyInt 5]
   \<and> snd (convert_xgboost all_installed accepting_parser plain_topology_converter
             (Some \<lparr>est_class = ''XGBRegressor'', features_count = None\<rparr>)
             (Some (Array \<lparr>nd_shape = [1, 2], nd_data = [1, 2]\<rparr>))
             [''device'' \<mapsto> PyStr ''cpu'']) =
         [''device'' \<mapsto> PyStr ''cpu'', ''n_features'' \<mapsto> PyInt 2]
   \<and> snd (convert_xgboost all_installed accepting_parser plain_topology_converter
             (Some \<lparr>est_class = ''XGBRegressor'', features_count = None\<rparr>) None
             [''device'' \<mapsto> PyStr ''cpu'']) = [''device'' \<mapsto> PyStr ''cpu'']
   \<and> snd (convert_xgboost all_installed accepting_parser plain_topology_converter
             (Some \<lparr>est_class = ''XGBClassifier'', features_count = Some 5\<rparr>) None
             [''n_features'' \<mapsto> PyInt 3]) = [''n_features'' \<mapsto> PyInt 3]"
proof -
  have t: "\<forall>t c. snd (plain_topology_converter t c) = c"
    by (simp add: plain_topology_converter_def)
  have l: "\<forall>ir ins outs d c. snd (plain_linked_node_converter ir ins outs d c) = c"
    by (simp add: plain_linked_node_converter_def)
  have inst: "xgboost_installed all_installed"
    by (simp add: all_installed_def)
  let ?c = "Some \<lparr>est_class = ''XGBClassifier'', features_count = Some 5\<rparr>"
  let ?r = "Some \<lparr>est_class = ''XGBRegressor'', features_count = None\<rparr>"
  let ?x = "Some (Array \<lparr>nd_shape = [1, 2], nd_data = [1, 2]\<rparr>)"
  let ?dev = "[''device'' \<mapsto> PyStr ''cpu'']"
  note frame = extra_config_frame
    [where topology_converter = plain_topology_converter
       and linked_node_converter = plain_linked_node_converter
       and env = all_installed and parse = accepting_parser
       and build = accepting_builder and omodel = None and initial_types = None
       and input_names = None and output_names = None and test_data = None, OF t l]
  have a: "snd (convert_sklearn all_installed accepting_parser plain_topology_converter ?c None
                  ?dev) = ?dev"
    using frame [of ?c None ?dev] by blast
  have "\<forall>n. xgboost_installed all_installed \<and> ?dev N_FEATURES = None
              \<and> Option.bind ?c features_count = Some n \<longrightarrow>
            snd (convert_xgboost all_installed accepting_parser plain_topology_converter ?c None
                   ?dev) = ?dev(N_FEATURES \<mapsto> PyInt n)"
    using frame [of ?c None ?dev] by blast
  then have b: "snd (convert_xgboost all_installed accepting_parser plain_topology_converter ?c
                       None ?dev) = [''device'' \<mapsto> PyStr ''cpu'', ''n_features'' \<mapsto> PyInt 5]"
    using inst by (simp add: N_FEATURES_def)
  have "\<forall>a. xgboost_installed all_installed \<and> ?dev N_FEATURES = None
              \<and> Option.bind ?r features_count = None
              \<and> ?x = Some (Array a) \<and> length (nd_shape a) = 2 \<longrightarrow>
            snd (convert_xgboost all_installed accepting_parser plain_topology_converter ?r ?x
                   ?dev) = ?dev(N_FEATURES \<mapsto> PyInt (int (nd_shape a ! 1)))"
    using frame [of ?r ?x ?dev] by blast
  then have c: "snd (convert_xgboost all_installed accepting_parser plain_topology_converter ?r
                       ?x ?dev) = [''device'' \<mapsto> PyStr ''cpu'', ''n_features'' \<mapsto> PyInt 2]"
    using inst by (simp add: N_FEATURES_def)
  have "\<not> xgboost_installed all_installed \<or> ?dev N_FEATURES \<noteq> None
            \<or> (Option.bind ?r features_count = None
                \<and> (\<forall>a. None = Some (Array a) \<longrightarrow> length (nd_shape a) \<noteq> 2)) \<longrightarrow>
          snd (convert_xgboost all_installed accepting_parser plain_topology_converter ?r None
                 ?dev) = ?dev"
    using frame [of ?r None ?dev] by blast
  then have d: "snd (convert_xgboost all_installed accepting_parser plain_topology_converter ?r
                       None ?dev) = ?dev"
    by simp
  have "\<not> xgboost_installed all_installed \<or> [''n_features'' \<mapsto> PyInt 3] N_FEATURES \<noteq> None
            \<or> (Option.bind ?c features_count = None
                \<and> (\<forall>a. None = Some (Array a) \<longrightarrow> length (nd_shape a) \<noteq> 2)) \<longrightarrow>
          snd (convert_xgboost all_installed accepting_parser plain_topology_converter ?c None
                 [''n_features'' \<mapsto> PyInt 3]) = [''n_features'' \<mapsto> PyInt 3]"
    using frame [of ?c None "[''n_features'' \<mapsto> PyInt 3]"] by blast
  then have e: "snd (convert_xgboost all_installed accepting_parser plain_topology_converter ?c
                       None [''n_features'' \<mapsto> PyInt 3]) = [''n_features'' \<mapsto> PyInt 3]"
    by (simp add: N_FEATURES_def)
  show ?thesis
    using t l a b c d e by blast
qed

section \<open>The linear-model converter: missing attributes\<close>

text \<open>
  C5. If no attribute of the operator is named \<open>coefficients\<close>, or none is named
  \<open>intercepts\<close>, or none is named \<open>classlabels_ints\<close>, the converter raises the
  RuntimeError "found unexpected None" and returns no fragment.
\<close>

theorem missing_attribute_is_error:
  assumes "(\<forall>a\<in>set (origin_attribute (raw_operator operator)). attr_name a \<noteq> ''coefficients'')
         \<or> (\<forall>a\<in>set (origin_attribute (raw_operator operator)). attr_name a \<noteq> ''intercepts'')
         \<or> (\<forall>a\<in>set (origin_attribute (raw_operator operator)). attr_name a \<noteq> ''classlabels_ints'')"
  shows "convert_onnx_linear_model (Some operator) dev extra =
           Inl (RuntimeError ''Error parsing LinearClassifier, found unexpected None'')"
proof -
  let ?vars = "read_attributes (origin_attribute (raw_operator operator))"
  have "v_coefficients ?vars = None \<or> v_intercepts ?vars = None \<or> v_classes ?vars = None"
    using assms
    by (auto simp: read_attributes_def no_vars_def v_coefficients_fold v_intercepts_fold v_classes_fold)
  then show ?thesis
    by (auto simp: convert_onnx_linear_model_def check_and_build_def split: option.splits)
qed

theorem missing_attribute_is_error_witness:
  "convert_onnx_linear_model
     (linear_classifier
        [(named_attribute ''coefficients'')\<lparr>attr_floats := [1, 2, - 1, - 2]\<rparr>,
         (named_attribute ''classlabels_ints'')\<lparr>attr_ints := [0, 1]\<rparr>]) None Map.empty =
   Inl (RuntimeError ''Error parsing LinearClassifier, found unexpected None'')"
  using missing_attribute_is_error
    [of "the (linear_classifier
        [(named_attribute ''coefficients'')\<lparr>attr_floats := [1, 2, - 1, - 2]\<rparr>,
         (named_attribute ''classlabels_ints'')\<lparr>attr_ints := [0, 1]\<rparr>])" None Map.empty]
  by (simp add: linear_classifier_def named_attribute_def)

text \<open>
  C6. If the class labels the loop has read are fewer than two, the converter raises a
  RuntimeError and returns no fragment: the one for a missing attribute when coefficients
  or intercepts are absent, the one for the length of the classes otherwise.
\<close>

theorem too_few_classes_is_error:
  assumes "v_classes (read_attributes (origin_attribute (raw_operator operator))) = Some cls"
      and "length cls < 2"
  shows "\<exists>msg. convert_onnx_linear_model (Some operator) dev extra = Inl (RuntimeError msg)"
  using assms
  by (auto simp: convert_onnx_linear_model_def check_and_build_def reshape_and_build_def
           split: option.splits)

theorem too_few_classes_is_error_witness:
  "\<exists>msg. convert_onnx_linear_model
     (linear_classifier
        [(named_attribute ''coefficients'')\<lparr>attr_floats := [1, 2]\<rparr>,
         (named_attribute ''intercepts'')\<lparr>attr_floats := [3]\<rparr>,
         (named_attribute ''classlabels_ints'')\<lparr>attr_ints := [7]\<rparr>]) None Map.empty =
   Inl (RuntimeError msg)"
  using too_few_classes_is_error
    [of "the (linear_classifier
        [(named_attribute ''coefficients'')\<lparr>attr_floats := [1, 2]\<rparr>,
         (named_attribute ''intercepts'')\<lparr>attr_floats := [3]\<rparr>,
         (named_attribute ''classlabels_ints'')\<lparr>attr_ints := [7]\<rparr>])" "[7]" None Map.empty]
  by (simp add: linear_classifier_def named_attribute_def read_attributes_def read_attribute_def no_vars_def)

section \<open>convert_xgboost: the feature count\<close>

text \<open>
  C7. With XGBoost installed: if the configuration has no \<open>n_features\<close>, the model does
  not report a feature count and the test input is not a two-dimensional array (it is
  absent, not an array, or an array of another rank), \<open>convert_xgboost\<close> raises the
  RuntimeError of the feature-count inference, the parser and the converter are not
  reached and the configuration is as it was. Otherwise the call continues as
  \<open>convert_sklearn\<close> on a configuration holding \<open>n_features\<close>: the caller's value if there
  is one, else the count the model reports, else the second dimension of the test input.
\<close>

theorem feature_count_inference:
  assumes "xgboost_installed env"
  shows "(cfg N_FEATURES = None \<and> Option.bind model features_count = None
            \<and> (\<forall>a. test_input = Some (Array a) \<longrightarrow> length (nd_shape a) \<noteq> 2) \<longrightarrow>
          convert_xgboost env parse topology_converter model test_input cfg =
            (Inl (RuntimeError (if test_input = None then no_test_input_message
                                else not_an_ndarray_message)), cfg))
       \<and> (cfg N_FEATURES \<noteq> None \<longrightarrow>
          convert_xgboost env parse topology_converter model test_input cfg =
            convert_sklearn env parse topology_converter model test_input cfg)
       \<and> (\<forall>n. cfg N_FEATURES = None \<and> Option.bind model features_count = Some n \<longrightarrow>
          convert_xgboost env parse topology_converter model test_input cfg =
            convert_sklearn env parse topology_converter model test_input
              (cfg(N_FEATURES \<mapsto> PyInt n)))
       \<and> (\<forall>a. cfg N_FEATURES = None \<and> Option.bind model features_count = None
              \<and> test_input = Some (Array a) \<and> length (nd_shape a) = 2 \<longrightarrow>
          convert_xgboost env parse topology_converter model test_input cfg =
            convert_sklearn env parse topology_converter model test_input
              (cfg(N_FEATURES \<mapsto> PyInt (int (nd_shape a ! 1)))))"
proof -
  have fails: "infer_n_features model test_input cfg =
           Inl (RuntimeError (if test_input = None then no_test_input_message
                              else not_an_ndarray_message))"
    if "cfg N_FEATURES = None" and "Option.bind model features_count = None"
      and "\<forall>a. test_input = Some (Array a) \<longrightarrow> length (nd_shape a) \<noteq> 2"
    using that by (auto simp: infer_n_features_def split: option.splits test_input.splits)
  have supplied: "infer_n_features model test_input cfg = Inr cfg" if "cfg N_FEATURES \<noteq> None"
    using that by (auto simp: infer_n_features_def)
  have reported: "infer_n_features model test_input cfg = Inr (cfg(N_FEATURES \<mapsto> PyInt n))"
    if "cfg N_FEATURES = None" and "Option.bind model features_count = Some n" for n
    using that by (simp add: infer_n_features_def)
  have shaped: "infer_n_features model test_input cfg =
                  Inr (cfg(N_FEATURES \<mapsto> PyInt (int (nd_shape a ! 1))))"
    if "cfg N_FEATURES = None" and "Option.bind model features_count = None"
      and "test_input = Some (Array a)" and "length (nd_shape a) = 2" for a
    using that by (simp add: infer_n_features_def)
  show ?thesis
    using assms fails supplied reported shaped
    by (simp add: convert_xgboost_def)
qed

theorem feature_count_inference_witness:
  "xgboost_installed all_installed
   \<and> convert_xgboost all_installed accepting_parser plain_topology_converter
         (Some \<lparr>est_class = ''XGBRegressor'', features_count = None\<rparr>) None Map.empty =
       (Inl (RuntimeError no_test_input_message), Map.empty)
   \<and> convert_xgboost all_installed accepting_parser plain_topology_converter
         (Some \<lparr>est_class = ''XGBRegressor'', features_count = None\<rparr>)
         (Some (Array \<lparr>nd_shape = [3], nd_data = [1, 2, 3]\<rparr>)) Map.empty =
       (Inl (RuntimeError not_an_ndarray_message), Map.empty)
   \<and> convert_xgboost all_installed accepting_parser plain_topology_converter
         (Some \<lparr>est_class = ''XGBClassifier'', features_count = Some 5\<rparr>) None Map.empty =
       (Inr \<lparr>est_class = ''XGBClassifier'', features_count = Some 5\<rparr>,
        [''n_features'' \<mapsto> PyInt 5])
   \<and> convert_xgboost all_installed accepting_parser plain_topology_converter
         (Some \<lparr>est_class = ''XGBRegressor'', features_count = None\<rparr>)
         (Some (Array \<lparr>nd_shape = [1, 2], nd_data = [1, 2]\<rparr>)) Map.empty =
       (Inr \<lparr>est_class = ''XGBRegressor'', features_count = None\<rparr>,
        [''n_features'' \<mapsto> PyInt 2])"
proof -
  have inst: "xgboost_installed all_installed"
    by (simp add: all_installed_def)
  let ?r = "Some \<lparr>est_class = ''XGBRegressor'', features_count = None\<rparr>"
  let ?c = "Some \<lparr>est_class = ''XGBClassifier'', features_count = Some 5\<rparr>"
  note run = convert_sklearn_def accepting_parser_def plain_topology_converter_def
    all_installed_def N_FEATURES_def
  have "convert_xgboost all_installed accepting_parser plain_topology_converter ?r None Map.empty =
          (Inl (RuntimeError no_test_input_message), Map.empty)"
    using feature_count_inference
      [OF inst, where parse = accepting_parser and topology_converter = plain_topology_converter
         and cfg = Map.empty and model = ?r and test_input = None]
    by simp
  moreover have "convert_xgboost all_installed accepting_parser plain_topology_converter ?r
          (Some (Array \<lparr>nd_shape = [3], nd_data = [1, 2, 3]\<rparr>)) Map.empty =
          (Inl (RuntimeError not_an_ndarray_message), Map.empty)"
    using feature_count_inference
      [OF inst, where parse = accepting_parser and topology_converter = plain_topology_converter
         and cfg = Map.empty and model = ?r
         and test_input = "Some (Array \<lparr>nd_shape = [3], nd_data = [1, 2, 3]\<rparr>)"]
    by simp
  moreover have "convert_xgboost all_installed accepting_parser plain_topology_converter ?c None
          Map.empty =
          (Inr \<lparr>est_class = ''XGBClassifier'', features_count = Some 5\<rparr>,
           [''n_features'' \<mapsto> PyInt 5])"
    using feature_count_inference
      [OF inst, where parse = accepting_parser and topology_converter = plain_topology_converter
         and cfg = Map.empty and model = ?c and test_input = None]
    by (simp add: run)
  moreover have "convert_xgboost all_installed accepting_parser plain_topology_converter ?r
          (Some (Array \<lparr>nd_shape = [1, 2], nd_data = [1, 2]\<rparr>)) Map.empty =
          (Inr \<lparr>est_class = ''XGBRegressor'', features_count = None\<rparr>,
           [''n_features'' \<mapsto> PyInt 2])"
    using feature_count_inference
      [OF inst, where parse = accepting_parser and topology_converter = plain_topology_converter
         and cfg = Map.empty and model = ?r
         and test_input = "Some (Array \<lparr>nd_shape = [1, 2], nd_data = [1, 2]\<rparr>)"]
    by (simp add: run)
  ultimately show ?thesis
    using inst by blast
qed

section \<open>convert_onnxml: the inputs and the test data\<close>

text \<open>
  C8. If two or more inputs of the model carry one of the names asked for (or the model
  has two or more inputs and no names are asked for), \<open>convert_onnxml\<close> fails on an
  assertion and leaves the configuration as it was, whatever the graph builder and the
  converter are: no graph is built and no model is produced. The assertion is the one of
  line 208, "more than 1 input", whenever the assertions before it pass: torch and onnx
  are installed, and test data or initial types are given.
\<close>

theorem more_than_one_input:
  assumes "2 \<le> length (resolved_inputs m input_names)"
  shows "(\<exists>msg. convert_onnxml env build linked_node_converter (Some m) initial_types
                  input_names output_names test_data cfg = (Inl (AssertionError msg), cfg))
       \<and> (torch_installed env \<and> onnx_installed env
            \<and> (test_data \<noteq> None \<or> initial_types \<noteq> None) \<longrightarrow>
          convert_onnxml env build linked_node_converter (Some m) initial_types input_names
            output_names test_data cfg =
          (Inl (AssertionError
                  ''Hummingbird currently do not support models with more than 1 input.''), cfg))"
  using assms by (auto simp: convert_onnxml_def)

theorem more_than_one_input_witness:
  "torch_installed all_installed \<and> onnx_installed all_installed
   \<and> resolved_inputs \<lparr>model_input = [\<lparr>vi_name = ''a''\<rparr>, \<lparr>vi_name = ''b''\<rparr>],
                       model_output = None\<rparr> None = [\<lparr>vi_name = ''a''\<rparr>, \<lparr>vi_name = ''b''\<rparr>]
   \<and> convert_onnxml all_installed accepting_builder plain_linked_node_converter
         (Some \<lparr>model_input = [\<lparr>vi_name = ''a''\<rparr>, \<lparr>vi_name = ''b''\<rparr>], model_output = None\<rparr>)
         None None None (Some \<lparr>td_dtype = float32, td_shape = [1, 2]\<rparr>) Map.empty =
       (Inl (AssertionError
               ''Hummingbird currently do not support models with more than 1 input.''),
        Map.empty)"
proof -
  have t: "torch_installed all_installed" and o: "onnx_installed all_installed"
    by (simp_all add: all_installed_def)
  let ?m = "\<lparr>model_input = [\<lparr>vi_name = ''a''\<rparr>, \<lparr>vi_name = ''b''\<rparr>], model_output = None\<rparr>"
  have r: "resolved_inputs ?m None = [\<lparr>vi_name = ''a''\<rparr>, \<lparr>vi_name = ''b''\<rparr>]"
    by (simp add: resolved_inputs_def)
  have d: "Some \<lparr>td_dtype = float32, td_shape = [1, 2]\<rparr> \<noteq> None \<or> (None :: (string \<times> data_type) list option) \<noteq> None"
    by simp
  have two: "2 \<le> length (resolved_inputs ?m None)"
    by (simp add: r)
  show ?thesis
    using t o r d more_than_one_input
      [OF two, where env = all_installed and build = accepting_builder
         and linked_node_converter = plain_linked_node_converter
         and initial_types = None and output_names = None
         and test_data = "Some \<lparr>td_dtype = float32, td_shape = [1, 2]\<rparr>"
         and cfg = Map.empty]
    by simp
qed

text \<open>
  A string tensor type whose shape is \<open>[None, 20]\<close>, the usual way to leave the batch size
  open: \<open>np.random.rand\<close> is called on the dimensions before the type is looked at, and
  raises a TypeError. The exception of the unsupported type is not reached.
\<close>

theorem element_type_counterexample:
  "convert_onnxml all_installed accepting_builder plain_linked_node_converter
     (Some \<lparr>model_input = [\<lparr>vi_name = ''input''\<rparr>], model_output = None\<rparr>)
     (Some [(''input'', \<lparr>dt_class = StringTensorType, dt_shape = Some [DimNone, DimInt 20]\<rparr>)])
     None None None Map.empty =
   (Inl (TypeError ''object cannot be interpreted as an integer''), Map.empty)"
  by (simp add: convert_onnxml_def all_installed_def resolved_inputs_def
        synthesize_and_convert_def synthesize_test_data_def np_random_rand_def as_intp_def)

text \<open>
  C9, for a shape numpy can allocate: two integers \<open>r\<close> and \<open>c\<close> that are not negative,
  with \<open>8 * max(1, r) * max(1, c)\<close> bytes inside the index type and \<open>12 * r * c\<close> bytes
  (the float64 array and its copy) inside the memory of the process. With torch and onnx
  installed, exactly one input resolved, no test data and one initial type of that shape:
  test data are made only for \<open>FloatTensorType\<close> and \<open>Int32TensorType\<close>, as a float32 and
  an int32 array of the declared shape, and handed to the collaborators; for every other
  type \<open>convert_onnxml\<close> raises the RuntimeError "Type not supported".
\<close>

theorem synthesized_element_type:
  assumes "torch_installed env" and "onnx_installed env"
      and "length (resolved_inputs m input_names) = 1"
      and "0 \<le> r" and "0 \<le> c"
      and "8 * (max 1 r * max 1 c) \<le> max_intp env"
      and "12 * (r * c) \<le> int (memory_bytes env)"
  shows "synthesize_test_data env \<lparr>dt_class = cl, dt_shape = Some [DimInt r, DimInt c]\<rparr> =
           (if cl = FloatTensorType then Inr \<lparr>td_dtype = float32, td_shape = [nat r, nat c]\<rparr>
            else if cl = Int32TensorType then Inr \<lparr>td_dtype = int32, td_shape = [nat r, nat c]\<rparr>
            else Inl (RuntimeError
                   ''Type {} not supported. Please fill an issue on https://github.com/microsoft/hummingbird/.''))
       \<and> convert_onnxml env build linked_node_converter (Some m)
           (Some [(name, \<lparr>dt_class = cl, dt_shape = Some [DimInt r, DimInt c]\<rparr>)])
           input_names output_names None cfg =
           (if cl = FloatTensorType \<or> cl = Int32TensorType then
              (case build m (resolved_output_names m output_names) of
                 Inl e \<Rightarrow> (Inl e, cfg)
               | Inr onnx_ir \<Rightarrow>
                   linked_node_converter onnx_ir (resolved_inputs m input_names)
                     (resolved_output_names m output_names)
                     \<lparr>td_dtype = (if cl = FloatTensorType then float32 else int32),
                      td_shape = [nat r, nat c]\<rparr> cfg)
            else
              (Inl (RuntimeError
                   ''Type {} not supported. Please fill an issue on https://github.com/microsoft/hummingbird/.''),
               cfg))"
proof -
  have "0 \<le> r * c" using assms(4,5) by simp
  then have mem: "8 * (r * c) \<le> int (memory_bytes env)" using assms(7) by simp
  note rand = np_random_rand_fits [OF assms(4,5,6) mem]
  note cast = np_array_as_fits [OF assms(4,5,7)]
  have synth: "synthesize_test_data env \<lparr>dt_class = cl, dt_shape = Some [DimInt r, DimInt c]\<rparr> =
           (if cl = FloatTensorType then Inr \<lparr>td_dtype = float32, td_shape = [nat r, nat c]\<rparr>
            else if cl = Int32TensorType then Inr \<lparr>td_dtype = int32, td_shape = [nat r, nat c]\<rparr>
            else Inl (RuntimeError
                   ''Type {} not supported. Please fill an issue on https://github.com/microsoft/hummingbird/.''))"
    by (simp add: synthesize_test_data_def rand cast)
  show ?thesis
    unfolding synth using assms(1-3)
    by (simp add: convert_onnxml_def synthesize_and_convert_def synth)
qed

theorem synthesized_element_type_witness:
  "torch_installed all_installed \<and> onnx_installed all_installed
   \<and> length (resolved_inputs \<lparr>model_input = [\<lparr>vi_name = ''input''\<rparr>], model_output = None\<rparr>
                None) = 1
   \<and> 8 * (max 1 1 * max 1 20) \<le> max_intp all_installed
   \<and> 12 * (1 * 20) \<le> int (memory_bytes all_installed)
   \<and> convert_onnxml all_installed accepting_builder plain_linked_node_converter
         (Some \<lparr>model_input = [\<lparr>vi_name = ''input''\<rparr>], model_output = None\<rparr>)
         (Some [(''input'', \<lparr>dt_class = FloatTensorType, dt_shape = Some [DimInt 1, DimInt 20]\<rparr>)])
         None None None Map.empty =
       (Inr \<lparr>td_dtype = float32, td_shape = [1, 20]\<rparr>, Map.empty)
   \<and> convert_onnxml all_installed accepting_builder plain_linked_node_converter
         (Some \<lparr>model_input = [\<lparr>vi_name = ''input''\<rparr>], model_output = None\<rparr>)
         (Some [(''input'', \<lparr>dt_class = Int32TensorType, dt_shape = Some [DimInt 1, DimInt 20]\<rparr>)])
         None None None Map.empty =
       (Inr \<lparr>td_dtype = int32, td_shape = [1, 20]\<rparr>, Map.empty)
   \<and> convert_onnxml all_installed accepting_builder plain_linked_node_converter
         (Some \<lparr>model_input = [\<lparr>vi_name = ''input''\<rparr>], model_output = None\<rparr>)
         (Some [(''input'', \<lparr>dt_class = Int64TensorType, dt_shape = Some [DimInt 1, DimInt 20]\<rparr>)])
         None None None Map.empty =
       (Inl (RuntimeError
               ''Type {} not supported. Please fill an issue on https://github.com/microsoft/hummingbird/.''),
        Map.empty)"
proof -
  have t: "torch_installed all_installed" and o: "onnx_installed all_installed"
    by (simp_all add: all_installed_def)
  let ?m = "\<lparr>model_input = [\<lparr>vi_name = ''input''\<rparr>], model_output = None\<rparr>"
  have one: "length (resolved_inputs ?m None) = 1"
    by (simp add: resolved_inputs_def)
  have r: "(0::int) \<le> 1" and c: "(0::int) \<le> 20"
    by simp_all
  have fits: "8 * (max 1 1 * max 1 20) \<le> max_intp all_installed"
    by (simp add: max_intp_def all_installed_def)
  have mem: "12 * (1 * 20) \<le> int (memory_bytes all_installed)"
    by (simp add: all_installed_def)
  note inst = synthesized_element_type
    [OF t o one r c fits mem, where build = accepting_builder
       and linked_node_converter = plain_linked_node_converter and name = "''input''"
       and output_names = None and cfg = Map.empty]
  show ?thesis
    using t o one fits mem
      inst [of FloatTensorType] inst [of Int32TensorType] inst [of Int64TensorType]
    by (simp add: accepting_builder_def plain_linked_node_converter_def)
qed

section \<open>The linear-model converter: class labels of another kind\<close>

text \<open>
  C10. If no attribute of the operator is named \<open>classlabels_ints\<close>, whatever other
  attributes carry its class labels, the variable \<open>classes\<close> is still \<open>None\<close> after the
  loop and the converter raises the RuntimeError "found unexpected None". The witness
  declares its labels as \<open>classlabels_strings\<close>.
\<close>

theorem only_integer_class_labels:
  assumes "\<forall>a\<in>set (origin_attribute (raw_operator operator)). attr_name a \<noteq> ''classlabels_ints''"
  shows "v_classes (read_attributes (origin_attribute (raw_operator operator))) = None
       \<and> convert_onnx_linear_model (Some operator) dev extra =
           Inl (RuntimeError ''Error parsing LinearClassifier, found unexpected None'')"
proof -
  have "v_classes (read_attributes (origin_attribute (raw_operator operator))) = None"
    using assms by (simp add: read_attributes_def no_vars_def v_classes_fold)
  then show ?thesis
    by (auto simp: convert_onnx_linear_model_def check_and_build_def split: option.splits)
qed

theorem only_integer_class_labels_witness:
  "v_classes (read_attributes
        [(named_attribute ''coefficients'')\<lparr>attr_floats := [1, 2, - 1, - 2]\<rparr>,
         (named_attribute ''intercepts'')\<lparr>attr_floats := [1 / 2, - 1 / 2]\<rparr>,
         (named_attribute ''classlabels_strings'')\<lparr>attr_strings := [''no'', ''yes'']\<rparr>]) = None
   \<and> convert_onnx_linear_model
     (linear_classifier
        [(named_attribute ''coefficients'')\<lparr>attr_floats := [1, 2, - 1, - 2]\<rparr>,
         (named_attribute ''intercepts'')\<lparr>attr_floats := [1 / 2, - 1 / 2]\<rparr>,
         (named_attribute ''classlabels_strings'')\<lparr>attr_strings := [''no'', ''yes'']\<rparr>])
     None Map.empty =
   Inl (RuntimeError ''Error parsing LinearClassifier, found unexpected None'')"
  using only_integer_class_labels
    [of "the (linear_classifier
        [(named_attribute ''coefficients'')\<lparr>attr_floats := [1, 2, - 1, - 2]\<rparr>,
         (named_attribute ''intercepts'')\<lparr>attr_floats := [1 / 2, - 1 / 2]\<rparr>,
         (named_attribute ''classlabels_strings'')\<lparr>attr_strings := [''no'', ''yes'']\<rparr>])" None Map.empty]
  by (simp add: linear_classifier_def named_attribute_def)

end
